theory Spec2Isabelle
  imports Main
begin

section \<open>JavaScript values\<close>

text \<open>
  The values that flow through the middleware and the two route handlers: request
  bodies, user rows, claims payloads, tokens and digests. Numbers are the integers
  (row identifiers). A property list keeps the order in which an object literal
  names its properties.
\<close>

datatype jsval =
    Undefined
  | Null
  | JBool bool
  | JNum int
  | JStr string
  | JObj "(string \<times> jsval) list"

text \<open>The test made by \<open>if (v)\<close> and by the left operand of \<open>&&\<close>.\<close>

fun truthy :: "jsval \<Rightarrow> bool" where
  "truthy Undefined = False"
| "truthy Null = False"
| "truthy (JBool b) = b"
| "truthy (JNum n) = (n \<noteq> 0)"
| "truthy (JStr s) = (s \<noteq> [])"
| "truthy (JObj kvs) = True"

datatype error = TypeError | Failure string

text \<open>
  \<open>String.prototype.split\<close> with a one-character separator: the pieces between the
  occurrences of the separator, so always at least one piece.
\<close>

fun split_from :: "char \<Rightarrow> string \<Rightarrow> string \<Rightarrow> string list" where
  "split_from sep piece [] = [piece]"
| "split_from sep piece (c # cs) =
     (if c = sep then piece # split_from sep [] cs
      else split_from sep (piece @ [c]) cs)"

definition js_split :: "char \<Rightarrow> string \<Rightarrow> string list" where
  "js_split sep s = split_from sep [] s"

text \<open>Reading \<open>parts[i]\<close>: \<open>undefined\<close> beyond the end of the array.\<close>

definition at_index :: "string list \<Rightarrow> nat \<Rightarrow> jsval" where
  "at_index parts i = (if i < length parts then JStr (parts ! i) else Undefined)"

section \<open>Requests, responses and effects\<close>

record request =
  authorization :: "string option"
  body :: jsval

text \<open>
  The response object as the code uses it: the status code (200 until
  \<open>res.status\<close> sets another), the body handed to \<open>res.send\<close> (\<open>None\<close> while
  nothing has been sent) and \<open>res.locals.token\<close>.
\<close>

record response =
  statusCode :: nat
  sent :: "jsval option"
  locals_token :: jsval

definition fresh_response :: response where
  "fresh_response = \<lparr>statusCode = 200, sent = None, locals_token = Undefined\<rparr>"

text \<open>
  Every call that leaves the repository's code is logged with its arguments, in the
  order the calls are made.
\<close>

datatype call =
    BcryptHash jsval jsval
  | BcryptCompare jsval jsval
  | JwtSign jsval jsval
  | JwtVerify jsval jsval
  | FindOne jsval
  | Create jsval
  | Next

record world =
  res :: response
  calls :: "call list"

text \<open>
  A piece of code either returns a value or throws, and leaves the world changed
  either way. \<open>await\<close> is sequencing: a rejected promise is a thrown error.
\<close>

type_synonym 'a action = "world \<Rightarrow> (error + 'a) \<times> world"

definition ret :: "'a \<Rightarrow> 'a action" where
  "ret x = (\<lambda>w. (Inr x, w))"

definition raise :: "error \<Rightarrow> 'a action" where
  "raise e = (\<lambda>w. (Inl e, w))"

definition andThen :: "'a action \<Rightarrow> ('a \<Rightarrow> 'b action) \<Rightarrow> 'b action" where
  "andThen m f = (\<lambda>w. case m w of (Inl e, w') \<Rightarrow> (Inl e, w') | (Inr x, w') \<Rightarrow> f x w')"

definition tryCatch :: "'a action \<Rightarrow> (error \<Rightarrow> 'a action) \<Rightarrow> 'a action" where
  "tryCatch m handler =
     (\<lambda>w. case m w of (Inl e, w') \<Rightarrow> handler e w' | (Inr x, w') \<Rightarrow> (Inr x, w'))"

text \<open>A logged call to a collaborator, with the result the collaborator gives.\<close>

definition invoke :: "call \<Rightarrow> error + 'a \<Rightarrow> 'a action" where
  "invoke c r = (\<lambda>w. (r, w\<lparr>calls := calls w @ [c]\<rparr>))"

text \<open>
  Reading \<open>v.name\<close>: a \<open>TypeError\<close> on \<open>undefined\<close> and \<open>null\<close>, the property's value
  on an object that has it (the last one, where a name is given twice), \<open>undefined\<close>
  otherwise. The names this program reads (\<open>email\<close>, \<open>password\<close>, \<open>name\<close>, \<open>id\<close>,
  \<open>passwordDigest\<close>) are not properties of a boolean, a number or a string.
\<close>

fun property :: "jsval \<Rightarrow> string \<Rightarrow> error + jsval" where
  "property Undefined k = Inl TypeError"
| "property Null k = Inl TypeError"
| "property (JObj kvs) k =
     Inr (case map_of (rev kvs) k of None \<Rightarrow> Undefined | Some v \<Rightarrow> v)"
| "property v k = Inr Undefined"

definition get_prop :: "jsval \<Rightarrow> string \<Rightarrow> jsval action" where
  "get_prop v k = (\<lambda>w. (property v k, w))"

definition res_status :: "nat \<Rightarrow> unit action" where
  "res_status n = (\<lambda>w. (Inr (), w\<lparr>res := (res w)\<lparr>statusCode := n\<rparr>\<rparr>))"

definition res_send :: "jsval \<Rightarrow> unit action" where
  "res_send v = (\<lambda>w. (Inr (), w\<lparr>res := (res w)\<lparr>sent := Some v\<rparr>\<rparr>))"

definition set_locals_token :: "jsval \<Rightarrow> unit action" where
  "set_locals_token t = (\<lambda>w. (Inr (), w\<lparr>res := (res w)\<lparr>locals_token := t\<rparr>\<rparr>))"

definition get_locals_token :: "jsval action" where
  "get_locals_token = (\<lambda>w. (Inr (locals_token (res w)), w))"

text \<open>
  The rest of the middleware chain, as \<open>next()\<close> runs it: what it does to the
  response, and the error it throws back into the caller, if any.
\<close>

type_synonym next_fn = "response \<Rightarrow> error option \<times> response"

definition call_next :: "next_fn \<Rightarrow> unit action" where
  "call_next next =
     (\<lambda>w. case next (res w) of
        (thrown, r) \<Rightarrow>
          ((case thrown of None \<Rightarrow> Inr () | Some e \<Rightarrow> Inl e),
           \<lparr>res = r, calls = calls w @ [Next]\<rparr>))"

text \<open>The body \<open>{ status: 'Error', msg: 'Unauthorized' }\<close>.\<close>

definition unauthorized :: jsval where
  "unauthorized = JObj [(''status'', JStr ''Error''), (''msg'', JStr ''Unauthorized'')]"

definition send_unauthorized :: "unit action" where
  "send_unauthorized = andThen (res_status 401) (\<lambda>_. res_send unauthorized)"

section \<open>Collaborators\<close>

text \<open>
  The bcrypt and jsonwebtoken libraries, the \<open>User\<close> model and the two values read
  from the environment are outside the repository's code. They are parameters: each
  library function may return or throw on any input.
\<close>

record collaborators =
  SALT_ROUNDS :: jsval
  APP_SECRET :: jsval
  bcrypt_hash :: "jsval \<Rightarrow> jsval \<Rightarrow> error + jsval"
  bcrypt_compare :: "jsval \<Rightarrow> jsval \<Rightarrow> error + bool"
  jwt_sign :: "jsval \<Rightarrow> jsval \<Rightarrow> error + jsval"
  jwt_verify :: "jsval \<Rightarrow> jsval \<Rightarrow> error + jsval"
  User_findOne :: "jsval \<Rightarrow> error + jsval"
  User_create :: "jsval \<Rightarrow> error + jsval"

text \<open>The calls themselves, as the running program makes them: each is logged.\<close>

definition bcrypt_hash_call :: "collaborators \<Rightarrow> jsval \<Rightarrow> jsval \<Rightarrow> jsval action" where
  "bcrypt_hash_call lib data rounds =
     invoke (BcryptHash data rounds) (bcrypt_hash lib data rounds)"

definition bcrypt_compare_call :: "collaborators \<Rightarrow> jsval \<Rightarrow> jsval \<Rightarrow> bool action" where
  "bcrypt_compare_call lib data encrypted =
     invoke (BcryptCompare data encrypted) (bcrypt_compare lib data encrypted)"

definition jwt_sign_call :: "collaborators \<Rightarrow> jsval \<Rightarrow> jsval \<Rightarrow> jsval action" where
  "jwt_sign_call lib payload secret =
     invoke (JwtSign payload secret) (jwt_sign lib payload secret)"

definition jwt_verify_call :: "collaborators \<Rightarrow> jsval \<Rightarrow> jsval \<Rightarrow> jsval action" where
  "jwt_verify_call lib token secret =
     invoke (JwtVerify token secret) (jwt_verify lib token secret)"

definition findOne_call :: "collaborators \<Rightarrow> jsval \<Rightarrow> jsval action" where
  "findOne_call lib options = invoke (FindOne options) (User_findOne lib options)"

definition create_call :: "collaborators \<Rightarrow> jsval \<Rightarrow> jsval action" where
  "create_call lib values = invoke (Create values) (User_create lib values)"

section \<open>The middleware\<close>

text \<open>
  The three helpers pass their arguments on to one library function each. They take
  that function and the environment value they read as their first two arguments;
  whatever the library call yields is what the helper yields.
\<close>

definition hashPassword :: "('p \<Rightarrow> 'r \<Rightarrow> 'a) \<Rightarrow> 'r \<Rightarrow> 'p \<Rightarrow> 'a" where
  "hashPassword hash salt_rounds password = hash password salt_rounds"

definition comparePassword :: "('p \<Rightarrow> 'd \<Rightarrow> 'a) \<Rightarrow> 'd \<Rightarrow> 'p \<Rightarrow> 'a" where
  "comparePassword compare storedPassword password = compare password storedPassword"

definition createToken :: "('c \<Rightarrow> 's \<Rightarrow> 'a) \<Rightarrow> 's \<Rightarrow> 'c \<Rightarrow> 'a" where
  "createToken sign app_secret payload = sign payload app_secret"


definition stripToken :: "request \<Rightarrow> next_fn \<Rightarrow> unit action" where
  "stripToken req next =
     tryCatch
       (andThen
          (case authorization req of
             None \<Rightarrow> raise TypeError
           | Some header \<Rightarrow> ret (at_index (js_split CHR '' '' header) 1)) (\<lambda>token.
          if truthy token then andThen (set_locals_token token) (\<lambda>_. call_next next)
          else ret ()))
       (\<lambda>error. send_unauthorized)"

section \<open>The route handlers\<close>

text \<open>
  The walkthrough gives both handlers as a skeleton,
  \<open>async (req, res) => { try { } catch (error) { throw error } }\<close>, and then the
  statements to put into the \<open>try\<close> block, in order. For \<open>Login\<close>: the lookup by
  email; the test \<open>user && (await middleware.comparePassword(user.passwordDigest,
  req.body.password))\<close>; inside it the payload, the token and
  \<open>return res.send({ user: payload, token })\<close>; and, as the last line of the \<open>try\<close>
  block and outside the \<open>if\<close>, \<open>res.status(401).send(...)\<close>. For \<open>Register\<close>: the
  destructuring of \<open>req.body\<close>, the hashing, \<open>User.create\<close> and \<open>res.send(user)\<close>.
\<close>

text \<open>The options \<open>{ where: { email: ... }, raw: true }\<close> of the lookup.\<close>

definition by_email :: "jsval \<Rightarrow> jsval" where
  "by_email email = JObj [(''where'', JObj [(''email'', email)]), (''raw'', JBool True)]"

definition claims :: "jsval \<Rightarrow> jsval \<Rightarrow> jsval" where
  "claims user_id user_email = JObj [(''id'', user_id), (''email'', user_email)]"

definition Login :: "collaborators \<Rightarrow> request \<Rightarrow> unit action" where
  "Login lib req =
     tryCatch
       (andThen (get_prop (body req) ''email'') (\<lambda>email.
        andThen (findOne_call lib (by_email email)) (\<lambda>user.
        andThen
          (if truthy user then
             andThen (get_prop user ''passwordDigest'') (\<lambda>storedPassword.
             andThen (get_prop (body req) ''password'') (\<lambda>password.
               comparePassword (bcrypt_compare_call lib) storedPassword password))
           else ret False) (\<lambda>passwordMatch.
          if passwordMatch then
            andThen (get_prop user ''id'') (\<lambda>user_id.
            andThen (get_prop user ''email'') (\<lambda>user_email.
            andThen (createToken (jwt_sign_call lib) (APP_SECRET lib)
                       (claims user_id user_email)) (\<lambda>token.
              res_send (JObj [(''user'', claims user_id user_email), (''token'', token)]))))
          else send_unauthorized))))
       (\<lambda>error. raise error)"

definition new_user :: "jsval \<Rightarrow> jsval \<Rightarrow> jsval \<Rightarrow> jsval" where
  "new_user email passwordDigest name =
     JObj [(''email'', email), (''passwordDigest'', passwordDigest), (''name'', name)]"

definition Register :: "collaborators \<Rightarrow> request \<Rightarrow> unit action" where
  "Register lib req =
     tryCatch
       (andThen (get_prop (body req) ''email'') (\<lambda>email.
        andThen (get_prop (body req) ''password'') (\<lambda>password.
        andThen (get_prop (body req) ''name'') (\<lambda>name.
        andThen (hashPassword (bcrypt_hash_call lib) (SALT_ROUNDS lib) password)
          (\<lambda>passwordDigest.
        andThen (create_call lib (new_user email passwordDigest name)) (\<lambda>user.
          res_send user))))))
       (\<lambda>error. raise error)"

section \<open>The bcrypt library\<close>

text \<open>
  Modelled from the spec: the bcrypt library is third-party code that the repository
  only calls. A credential digest is derived from the plaintext and a work factor
  and has the salt embedded in it; it is kept here as the three parts the digest
  string encodes. The one-way function itself, \<open>kdf\<close>, is left open.
\<close>

record digest =
  digest_salt :: string
  digest_cost :: nat
  digest_hash :: string

text \<open>
  Modelled from the spec: \<open>bcrypt.hash\<close>, a salted, adaptive one-way hash with a cost
  parameter. The salt is the random choice the library makes on each call, so two
  calls on the same plaintext may give different digests.
\<close>

definition spec_hash ::
  "(string \<Rightarrow> nat \<Rightarrow> string \<Rightarrow> string) \<Rightarrow> string \<Rightarrow> string \<Rightarrow> nat \<Rightarrow> error + digest" where
  "spec_hash kdf fresh_salt plaintext workFactor =
     Inr \<lparr>digest_salt = fresh_salt, digest_cost = workFactor,
          digest_hash = kdf fresh_salt workFactor plaintext\<rparr>"

text \<open>
  Modelled from the spec: \<open>bcrypt.compare\<close> recomputes the hash with the salt
  embedded in the digest and checks equality; it returns false on a mismatch and
  does not throw.
\<close>

definition spec_compare ::
  "(string \<Rightarrow> nat \<Rightarrow> string \<Rightarrow> string) \<Rightarrow> string \<Rightarrow> digest \<Rightarrow> error + bool" where
  "spec_compare kdf plaintext d =
     Inr (kdf (digest_salt d) (digest_cost d) plaintext = digest_hash d)"

section \<open>Vocabulary of the properties\<close>

text \<open>
  \<open>field v k\<close> is the value of \<open>v.k\<close> where reading it does not throw.
\<close>

definition field :: "jsval \<Rightarrow> string \<Rightarrow> jsval" where
  "field v k = (case property v k of Inl e \<Rightarrow> Undefined | Inr x \<Rightarrow> x)"


text \<open>
  A concrete setting for the examples: the environment of the walkthrough
  (\<open>APP_SECRET=supersecretkey\<close>, \<open>SALT_ROUNDS=12\<close>), one stored user, John Doe, and
  collaborators that throw wherever an example does not say otherwise.
\<close>

definition john :: jsval where
  "john = JObj [(''id'', JNum 1), (''name'', JStr ''John Doe''),
                (''email'', JStr ''john@mail.com''),
                (''passwordDigest'', JStr ''digest-of-1234'')]"

definition failing_lib :: collaborators where
  "failing_lib =
     \<lparr>SALT_ROUNDS = JNum 12,
      APP_SECRET = JStr ''supersecretkey'',
      bcrypt_hash = (\<lambda>password rounds. Inl (Failure ''bcrypt.hash'')),
      bcrypt_compare = (\<lambda>password stored. Inl (Failure ''bcrypt.compare'')),
      jwt_sign = (\<lambda>payload secret. Inl (Failure ''jwt.sign'')),
      jwt_verify = (\<lambda>token secret. Inl (Failure ''jwt.verify'')),
      User_findOne = (\<lambda>options. Inl (Failure ''User.findOne'')),
      User_create = (\<lambda>values. Inl (Failure ''User.create''))\<rparr>"

definition users_lib :: collaborators where
  "users_lib =
     failing_lib
       \<lparr>bcrypt_hash := (\<lambda>password rounds. Inr (JStr ''digest-of-1234'')),
        bcrypt_compare := (\<lambda>password stored.
          Inr (password = JStr ''1234'' \<and> stored = JStr ''digest-of-1234'')),
        jwt_sign := (\<lambda>payload secret. Inr (JStr ''header.payload.signature'')),
        User_findOne := (\<lambda>options.
          if options = by_email (JStr ''john@mail.com'') then Inr john else Inr Null)\<rparr>"



definition login_request :: "string \<Rightarrow> string \<Rightarrow> request" where
  "login_request email password =
     \<lparr>authorization = None,
      body = JObj [(''email'', JStr email), (''password'', JStr password)]\<rparr>"

definition register_request :: request where
  "register_request =
     \<lparr>authorization = None,
      body = JObj [(''name'', JStr ''John Doe''), (''email'', JStr ''john@mail.com''),
                   (''password'', JStr ''1234'')]\<rparr>"

definition protected_request :: request where
  "protected_request = \<lparr>authorization = Some ''Bearer abc123'', body = Undefined\<rparr>"

definition start :: world where
  "start = \<lparr>res = fresh_response, calls = []\<rparr>"

definition pass_on :: next_fn where
  "pass_on r = (None, r)"

section \<open>Basic facts\<close>

lemmas action_defs = ret_def raise_def andThen_def tryCatch_def invoke_def get_prop_def
  res_status_def res_send_def set_locals_token_def get_locals_token_def call_next_def
  send_unauthorized_def bcrypt_hash_call_def bcrypt_compare_call_def jwt_sign_call_def
  jwt_verify_call_def findOne_call_def create_call_def

lemma property_truthy: "truthy v \<Longrightarrow> property v k = Inr (field v k)"
  by (cases v) (simp_all add: field_def)

lemma property_other: "property v k = Inr x \<Longrightarrow> property v k' = Inr (field v k')"
  by (cases v) (simp_all add: field_def)

section \<open>The token extractor\<close>

lemma stripToken_absent:
  "authorization req = None \<Longrightarrow>
   stripToken req next w =
     (Inr (), w\<lparr>res := (res w)\<lparr>statusCode := 401, sent := Some unauthorized\<rparr>\<rparr>)"
  by (simp add: stripToken_def action_defs)

lemma stripToken_falsy:
  "authorization req = Some header \<Longrightarrow>
   \<not> truthy (at_index (js_split CHR '' '' header) 1) \<Longrightarrow>
   stripToken req next w = (Inr (), w)"
  by (simp add: stripToken_def action_defs)

lemma stripToken_stores_token:
  "authorization req = Some header \<Longrightarrow>
   truthy (at_index (js_split CHR '' '' header) 1) \<Longrightarrow>
   stripToken req pass_on w =
     (Inr (), \<lparr>res = (res w)\<lparr>locals_token := at_index (js_split CHR '' '' header) 1\<rparr>,
               calls = calls w @ [Next]\<rparr>)"
  by (simp add: stripToken_def action_defs pass_on_def)

lemma stripToken_bearer:
  "stripToken protected_request pass_on start =
     (Inr (), \<lparr>res = \<lparr>statusCode = 200, sent = None, locals_token = JStr ''abc123''\<rparr>,
               calls = [Next]\<rparr>)"
  by (simp add: stripToken_def action_defs pass_on_def protected_request_def start_def
      fresh_response_def js_split_def at_index_def)

text \<open>
  C1. The extractor answers an absent header with the 401 rejection
  (\<open>stripToken_absent\<close>), but a header without a space and a header whose token
  part is empty get no answer at all: \<open>stripToken\<close> returns with the response
  untouched, nothing sent and \<open>next\<close> not called. No exception escapes.
\<close>

theorem stripToken_malformed_header_unanswered:
  "stripToken \<lparr>authorization = Some ''abc123'', body = b\<rparr> next w = (Inr (), w)
   \<and> stripToken \<lparr>authorization = Some ''Bearer '', body = b\<rparr> next w = (Inr (), w)"
  by (simp add: stripToken_def action_defs js_split_def at_index_def)

section \<open>The verification middleware\<close>





section \<open>Login\<close>

lemma Login_falsy_user:
  assumes "property (body req) ''email'' = Inr email"
    and "User_findOne lib (by_email email) = Inr user"
    and "\<not> truthy user"
  shows "Login lib req w =
     (Inr (), w\<lparr>res := (res w)\<lparr>statusCode := 401, sent := Some unauthorized\<rparr>,
                calls := calls w @ [FindOne (by_email email)]\<rparr>)"
  using assms by (simp add: Login_def action_defs)


lemma Login_match:
  assumes "property (body req) ''email'' = Inr email"
    and "User_findOne lib (by_email email) = Inr user"
    and "truthy user"
    and "bcrypt_compare lib (field (body req) ''password'') (field user ''passwordDigest'')
           = Inr True"
    and "jwt_sign lib (JObj [(''id'', field user ''id''), (''email'', field user ''email'')])
           (APP_SECRET lib) = Inr token"
  shows "Login lib req w =
     (Inr (),
      w\<lparr>res := (res w)\<lparr>sent := Some (JObj
            [(''user'', JObj [(''id'', field user ''id''), (''email'', field user ''email'')]),
             (''token'', token)])\<rparr>,
        calls := calls w @ [FindOne (by_email email),
          BcryptCompare (field (body req) ''password'') (field user ''passwordDigest''),
          JwtSign (JObj [(''id'', field user ''id''), (''email'', field user ''email'')])
            (APP_SECRET lib)]\<rparr>)"
  using assms property_truthy[OF assms(3)] property_other[OF assms(1)]
  by (simp add: Login_def action_defs comparePassword_def createToken_def claims_def)





text \<open>
  C4. When the lookup finds a record, the password comparison returns true and the
  token is issued, \<open>Login\<close> returns normally on a fresh response with status 200 and
  the body \<open>{ user: payload, token }\<close>. The payload, which is also what \<open>jwt.sign\<close>
  receives, has the two properties \<open>id\<close> and \<open>email\<close>, read from the record, and no
  other: neither \<open>passwordDigest\<close> nor \<open>password\<close>.
\<close>

theorem Login_success_response:
  assumes "property (body req) ''email'' = Inr email"
    and "User_findOne lib (by_email email) = Inr user"
    and "truthy user"
    and "bcrypt_compare lib (field (body req) ''password'') (field user ''passwordDigest'')
           = Inr True"
    and "jwt_sign lib (JObj [(''id'', field user ''id''), (''email'', field user ''email'')])
           (APP_SECRET lib) = Inr token"
    and "res w = fresh_response"
  shows "Login lib req w =
     (Inr (),
      \<lparr>res = \<lparr>statusCode = 200,
              sent = Some (JObj
                [(''user'', JObj [(''id'', field user ''id''), (''email'', field user ''email'')]),
                 (''token'', token)]),
              locals_token = Undefined\<rparr>,
       calls = calls w @ [FindOne (by_email email),
         BcryptCompare (field (body req) ''password'') (field user ''passwordDigest''),
         JwtSign (JObj [(''id'', field user ''id''), (''email'', field user ''email'')])
           (APP_SECRET lib)]\<rparr>)"
  using Login_match[OF assms(1-5), of w] assms(6)
  by (simp add: fresh_response_def)

text \<open>John logs in with the password 1234.\<close>

theorem Login_success_response_witness:
  "Login users_lib (login_request ''john@mail.com'' ''1234'') start =
     (Inr (),
      \<lparr>res = \<lparr>statusCode = 200,
              sent = Some (JObj
                [(''user'', JObj [(''id'', JNum 1), (''email'', JStr ''john@mail.com'')]),
                 (''token'', JStr ''header.payload.signature'')]),
              locals_token = Undefined\<rparr>,
       calls = [FindOne (by_email (JStr ''john@mail.com'')),
         BcryptCompare (JStr ''1234'') (JStr ''digest-of-1234''),
         JwtSign (JObj [(''id'', JNum 1), (''email'', JStr ''john@mail.com'')])
           (JStr ''supersecretkey'')]\<rparr>)"
proof -
  let ?req = "login_request ''john@mail.com'' ''1234''"
  have a: "property (body ?req) ''email'' = Inr (JStr ''john@mail.com'')"
    by (simp add: login_request_def)
  have b: "User_findOne users_lib (by_email (JStr ''john@mail.com'')) = Inr john"
    by (simp add: users_lib_def failing_lib_def)
  have c: "truthy john"
    by (simp add: john_def)
  have d: "bcrypt_compare users_lib (field (body ?req) ''password'')
             (field john ''passwordDigest'') = Inr True"
    by (simp add: users_lib_def failing_lib_def login_request_def field_def john_def)
  have e: "jwt_sign users_lib
             (JObj [(''id'', field john ''id''), (''email'', field john ''email'')])
             (APP_SECRET users_lib) = Inr (JStr ''header.payload.signature'')"
    by (simp add: users_lib_def failing_lib_def)
  have f: "res start = fresh_response"
    by (simp add: start_def)
  from Login_success_response[OF a b c d e f]
  show ?thesis
    by (simp add: start_def login_request_def field_def john_def users_lib_def failing_lib_def)
qed

text \<open>
  C10. When the lookup returns no record (\<open>null\<close>, or any falsy value), \<open>Login\<close>
  returns normally with the 401 rejection and the lookup is the only call it has
  made: \<open>bcrypt.compare\<close> is not called, whatever it would do, and no property of
  the missing record is read, so no exception arises.
\<close>

theorem Login_no_user_skips_comparison:
  assumes "property (body req) ''email'' = Inr email"
    and "User_findOne lib (by_email email) = Inr user"
    and "\<not> truthy user"
  shows "Login (lib\<lparr>bcrypt_compare := compare\<rparr>) req w =
     (Inr (), w\<lparr>res := (res w)\<lparr>statusCode := 401, sent := Some unauthorized\<rparr>,
                calls := calls w @ [FindOne (by_email email)]\<rparr>)"
  using assms Login_falsy_user[of req email "lib\<lparr>bcrypt_compare := compare\<rparr>" user w]
  by simp

text \<open>An unknown email, with a comparison that would throw on every call.\<close>

theorem Login_no_user_skips_comparison_witness:
  "Login (users_lib\<lparr>bcrypt_compare := (\<lambda>password stored. Inl (Failure ''bcrypt.compare''))\<rparr>)
     (login_request ''nobody@mail.com'' ''1234'') start =
     (Inr (),
      \<lparr>res = \<lparr>statusCode = 401, sent = Some unauthorized, locals_token = Undefined\<rparr>,
       calls = [FindOne (by_email (JStr ''nobody@mail.com''))]\<rparr>)"
proof -
  let ?req = "login_request ''nobody@mail.com'' ''1234''"
  have a: "property (body ?req) ''email'' = Inr (JStr ''nobody@mail.com'')"
    by (simp add: login_request_def)
  have b: "User_findOne users_lib (by_email (JStr ''nobody@mail.com'')) = Inr Null"
    by (simp add: users_lib_def failing_lib_def by_email_def)
  have c: "\<not> truthy Null"
    by simp
  from Login_no_user_skips_comparison[OF a b c, of _ start]
  show ?thesis by (simp add: start_def fresh_response_def)
qed

section \<open>Register\<close>

lemma Register_after_hash:
  assumes "property (body req) ''email'' = Inr email"
    and "bcrypt_hash lib (field (body req) ''password'') (SALT_ROUNDS lib) = Inr passwordDigest"
  shows "Register lib req w =
     (case User_create lib (new_user email passwordDigest (field (body req) ''name'')) of
        Inl e \<Rightarrow> (Inl e, w\<lparr>calls := calls w @
          [BcryptHash (field (body req) ''password'') (SALT_ROUNDS lib),
           Create (new_user email passwordDigest (field (body req) ''name''))]\<rparr>)
      | Inr user \<Rightarrow> (Inr (), w\<lparr>res := (res w)\<lparr>sent := Some user\<rparr>, calls := calls w @
          [BcryptHash (field (body req) ''password'') (SALT_ROUNDS lib),
           Create (new_user email passwordDigest (field (body req) ''name''))]\<rparr>))"
  using assms property_other[OF assms(1)]
  by (simp add: Register_def action_defs hashPassword_def split: sum.splits)

text \<open>
  C5. When the password is hashed and \<open>User.create\<close> returns a record, \<open>Register\<close>
  returns normally on a fresh response with status 200 and, as the body, the record
  exactly as \<open>User.create\<close> returned it: nothing is removed, so its \<open>passwordDigest\<close>
  is in the response. The values handed to \<open>User.create\<close> are the email, the digest
  under \<open>passwordDigest\<close>, and the name.
\<close>

theorem Register_sends_created_record:
  assumes "property (body req) ''email'' = Inr email"
    and "bcrypt_hash lib (field (body req) ''password'') (SALT_ROUNDS lib) = Inr passwordDigest"
    and "User_create lib
           (JObj [(''email'', email), (''passwordDigest'', passwordDigest),
                  (''name'', field (body req) ''name'')]) = Inr user"
    and "res w = fresh_response"
  shows "Register lib req w =
     (Inr (),
      \<lparr>res = \<lparr>statusCode = 200, sent = Some user, locals_token = Undefined\<rparr>,
       calls = calls w @
         [BcryptHash (field (body req) ''password'') (SALT_ROUNDS lib),
          Create (JObj [(''email'', email), (''passwordDigest'', passwordDigest),
                        (''name'', field (body req) ''name'')])]\<rparr>)
    \<and> property (the (sent (res (snd (Register lib req w))))) ''passwordDigest'' =
        property user ''passwordDigest''"
  using Register_after_hash[OF assms(1) assms(2), of w] assms(3) assms(4)
  by (simp add: new_user_def fresh_response_def)

text \<open>John registers; the storage returns what it was given, with an id.\<close>

theorem Register_sends_created_record_witness:
  "Register (users_lib\<lparr>User_create := (\<lambda>values. Inr john)\<rparr>) register_request start =
     (Inr (),
      \<lparr>res = \<lparr>statusCode = 200, sent = Some john, locals_token = Undefined\<rparr>,
       calls =
         [BcryptHash (JStr ''1234'') (JNum 12),
          Create (JObj [(''email'', JStr ''john@mail.com''),
                        (''passwordDigest'', JStr ''digest-of-1234''),
                        (''name'', JStr ''John Doe'')])]\<rparr>)
   \<and> property (the (sent (res (snd
        (Register (users_lib\<lparr>User_create := (\<lambda>values. Inr john)\<rparr>) register_request start)))))
        ''passwordDigest'' = Inr (JStr ''digest-of-1234'')"
proof -
  let ?lib = "users_lib\<lparr>User_create := (\<lambda>values. Inr john)\<rparr>"
  have a: "property (body register_request) ''email'' = Inr (JStr ''john@mail.com'')"
    by (simp add: register_request_def)
  have b: "bcrypt_hash ?lib (field (body register_request) ''password'') (SALT_ROUNDS ?lib)
             = Inr (JStr ''digest-of-1234'')"
    by (simp add: users_lib_def failing_lib_def)
  have c: "User_create ?lib
             (JObj [(''email'', JStr ''john@mail.com''),
                    (''passwordDigest'', JStr ''digest-of-1234''),
                    (''name'', field (body register_request) ''name'')]) = Inr john"
    by simp
  have d: "res start = fresh_response"
    by (simp add: start_def)
  from Register_sends_created_record[OF a b c d]
  show ?thesis
    by (simp add: start_def register_request_def field_def john_def users_lib_def
        failing_lib_def)
qed

text \<open>
  C6. When the password is hashed and \<open>User.create\<close> fails, \<open>Register\<close> ends by
  throwing that same error. The response is left as it was: no status is set and
  nothing is sent.
\<close>

theorem Register_storage_error_escapes:
  assumes "property (body req) ''email'' = Inr email"
    and "bcrypt_hash lib (field (body req) ''password'') (SALT_ROUNDS lib) = Inr passwordDigest"
    and "User_create lib
           (JObj [(''email'', email), (''passwordDigest'', passwordDigest),
                  (''name'', field (body req) ''name'')]) = Inl e"
  shows "fst (Register lib req w) = Inl e
    \<and> res (snd (Register lib req w)) = res w
    \<and> calls (snd (Register lib req w)) = calls w @
         [BcryptHash (field (body req) ''password'') (SALT_ROUNDS lib),
          Create (JObj [(''email'', email), (''passwordDigest'', passwordDigest),
                        (''name'', field (body req) ''name'')])]"
  using Register_after_hash[OF assms(1) assms(2), of w] assms(3)
  by (simp add: new_user_def)

text \<open>John registers a second time and the storage reports the duplicate email.\<close>

theorem Register_storage_error_escapes_witness:
  "fst (Register users_lib register_request start) = Inl (Failure ''User.create'')
   \<and> res (snd (Register users_lib register_request start)) =
       \<lparr>statusCode = 200, sent = None, locals_token = Undefined\<rparr>"
proof -
  have a: "property (body register_request) ''email'' = Inr (JStr ''john@mail.com'')"
    by (simp add: register_request_def)
  have b: "bcrypt_hash users_lib (field (body register_request) ''password'')
             (SALT_ROUNDS users_lib) = Inr (JStr ''digest-of-1234'')"
    by (simp add: users_lib_def failing_lib_def)
  have c: "User_create users_lib
             (JObj [(''email'', JStr ''john@mail.com''),
                    (''passwordDigest'', JStr ''digest-of-1234''),
                    (''name'', field (body register_request) ''name'')])
             = Inl (Failure ''User.create'')"
    by (simp add: users_lib_def failing_lib_def)
  from Register_storage_error_escapes[OF a b c, of start]
  show ?thesis by (simp add: start_def fresh_response_def)
qed

section \<open>Hashing and comparing passwords\<close>

text \<open>
  C8. Against the bcrypt library as the specification describes it, for every
  plaintext password, every salt the library may pick and every number of rounds:
  \<open>hashPassword\<close> returns a digest, and \<open>comparePassword\<close>, given that digest first
  and the same plaintext second, returns true.
\<close>

theorem comparePassword_accepts_hashed_password:
  "\<exists>d. hashPassword (spec_hash kdf fresh_salt) rounds p = Inr d
     \<and> comparePassword (spec_compare kdf) d p = Inr True"
  by (simp add: hashPassword_def comparePassword_def spec_hash_def spec_compare_def)

end
